theory Spec2Isabelle
  imports Main "HOL-Library.AList"
begin

section \<open>AssetService: the asset telemetry handlers\<close>

text \<open>
  A shallow embedding of four request handlers of
  \<^verbatim>\<open>src/server/rest/v1/service/AssetService.ts\<close>:
  \<^verbatim>\<open>handleGetAssetConsumption\<close>, \<^verbatim>\<open>handleCheckAssetConnection\<close>,
  \<^verbatim>\<open>handleRetrieveConsumption\<close> and \<^verbatim>\<open>handleGetAssetsInError\<close>.

  Every handler is an async function whose awaits run one after the other, so a run
  is a sequence of calls to collaborators followed by a normal return or a thrown
  exception. The model returns both: the list of collaborator calls with an effect or
  I/O, in the order the handler makes them, and the exception thrown, if any.
  The collaborators themselves (storage, connector registry, authorization, request
  filters, constants) are not part of the service: they are the fields of an
  environment record, and what they return is a parameter of every theorem.
  The calls that can fail are the assertions of \<^verbatim>\<open>UtilsService\<close> and the two methods of a
  connector. The storage, the registry, \<^verbatim>\<open>Logging.logError\<close>, \<^verbatim>\<open>res.json\<close> and
  \<^verbatim>\<open>next\<close> are taken to return normally.

  The type variable \<open>'v\<close> stands for the JSON values the service stores, copies and
  passes on without looking into them (numbers, dates, nested objects, \<^verbatim>\<open>undefined\<close>).
\<close>

subsection \<open>Data model\<close>

text \<open>The sample a connector returns (\<^verbatim>\<open>AbstractCurrentConsumption\<close>): the fields the
  handler reads from \<^verbatim>\<open>consumption\<close>.\<close>

record 'v consumption =
  lastConsumption :: 'v
  currentConsumptionWh :: 'v
  currentInstantAmps :: 'v
  currentInstantAmpsL1 :: 'v
  currentInstantAmpsL2 :: 'v
  currentInstantAmpsL3 :: 'v
  currentInstantVolts :: 'v
  currentInstantVoltsL1 :: 'v
  currentInstantVoltsL2 :: 'v
  currentInstantVoltsL3 :: 'v
  currentInstantWatts :: 'v
  currentInstantWattsL1 :: 'v
  currentInstantWattsL2 :: 'v
  currentInstantWattsL3 :: 'v
  currentStateOfCharge :: 'v

text \<open>The asset (\<^verbatim>\<open>Asset\<close>): every field the service reads or writes. The fields
  \<^verbatim>\<open>id\<close>, \<^verbatim>\<open>image\<close> and \<^verbatim>\<open>values\<close> carry a suffix, their names being taken.
  The fifteen live-state fields have the names of the sample's fields; from here on
  the short names are the asset's and the sample's are written \<open>consumption.f\<close>.\<close>

record 'v asset =
  id_asset :: string
  name :: string
  siteAreaID :: 'v
  siteID :: 'v
  assetType :: 'v
  excludeFromSmartCharging :: 'v
  fluctuationPercent :: 'v
  staticValueWatt :: 'v
  coordinates :: 'v
  image_asset :: 'v
  dynamicAsset :: bool
  connectionID :: string
  meterID :: 'v
  createdBy :: 'v
  createdOn :: 'v
  lastChangedBy :: 'v
  lastChangedOn :: 'v
  lastConsumption :: 'v
  currentConsumptionWh :: 'v
  currentInstantAmps :: 'v
  currentInstantAmpsL1 :: 'v
  currentInstantAmpsL2 :: 'v
  currentInstantAmpsL3 :: 'v
  currentInstantVolts :: 'v
  currentInstantVoltsL1 :: 'v
  currentInstantVoltsL2 :: 'v
  currentInstantVoltsL3 :: 'v
  currentInstantWatts :: 'v
  currentInstantWattsL1 :: 'v
  currentInstantWattsL2 :: 'v
  currentInstantWattsL3 :: 'v
  currentStateOfCharge :: 'v
  values_asset :: 'v

text \<open>\<^verbatim>\<open>req.user\<close>, the token of the caller.\<close>

record user_token =
  user_id :: string
  tenantID :: string

text \<open>The enumerations, by the members the handlers name.\<close>

datatype tenant_component = TenantComponents_ASSET

datatype action = LIST | READ | CHECK_CONNECTION | RETRIEVE_CONSUMPTION | IN_ERROR

datatype entity = ASSET | ASSETS

datatype server_action = RETRIEVE_ASSET_CONSUMPTION | ServerAction string

datatype http_error = GENERAL_ERROR

datatype http_auth_error = FORBIDDEN

subsection \<open>Exceptions\<close>

text \<open>A value thrown by a connector (the reason a promise is rejected with), by what a
  \<^verbatim>\<open>catch\<close> block can read of it. \<open>Nullish\<close> is \<^verbatim>\<open>null\<close> or \<^verbatim>\<open>undefined\<close>, as thrown by
  \<^verbatim>\<open>Promise.reject()\<close>: reading a property of it throws a \<^verbatim>\<open>TypeError\<close>. Of every other
  value the properties \<^verbatim>\<open>message\<close> and \<^verbatim>\<open>stack\<close> can be read, and are \<^verbatim>\<open>undefined\<close> (\<open>None\<close>)
  when the value has none; an \<^verbatim>\<open>Error\<close> object has both.\<close>

datatype js_error = Error "string option" "string option" | Nullish

text \<open>What a handler can throw:
  \<^item> \<^verbatim>\<open>new AppError({...})\<close>, by its parameter object: \<^verbatim>\<open>source\<close>, \<^verbatim>\<open>errorCode\<close>, \<^verbatim>\<open>message\<close>,
    \<^verbatim>\<open>module\<close>, \<^verbatim>\<open>method\<close>, \<^verbatim>\<open>action\<close>, \<^verbatim>\<open>user\<close> and the asset of \<^verbatim>\<open>detailedMessages\<close>, in
    this order; a property the handler leaves out is \<open>None\<close>;
  \<^item> \<^verbatim>\<open>new AppAuthError({...})\<close>: \<^verbatim>\<open>errorCode\<close>, \<^verbatim>\<open>user\<close>, \<^verbatim>\<open>action\<close>, \<^verbatim>\<open>entity\<close>, \<^verbatim>\<open>module\<close>,
    \<^verbatim>\<open>method\<close> and \<^verbatim>\<open>value\<close>;
  \<^item> the not-found failure of \<^verbatim>\<open>assertObjectExists\<close>: message, module, method;
  \<^item> a connector's thrown value passing through;
  \<^item> the \<^verbatim>\<open>TypeError\<close> of the runtime for a property read on \<^verbatim>\<open>null\<close> or \<^verbatim>\<open>undefined\<close>.\<close>

datatype 'v exn =
    AppError string http_error string string string
      "server_action option" "user_token option" "'v asset option"
  | AppAuthError http_auth_error user_token action entity string string "string option"
  | NotFound string string string
  | Thrown js_error
  | TypeError

text \<open>\<^verbatim>\<open>req\<close>: the caller and the raw query, which only the request filters read.\<close>

type_synonym query = "(string \<times> string) list"

record request =
  user :: user_token
  query :: query

subsection \<open>Values of the JavaScript runtime\<close>

text \<open>A \<^verbatim>\<open>Date\<close>, by its time value: the milliseconds since the epoch (a valid date).\<close>

datatype js_date = Date int

text \<open>\<^verbatim>\<open>moment(a).isAfter(moment(b))\<close> compares the two time values.\<close>

fun isAfter :: "js_date \<Rightarrow> js_date \<Rightarrow> bool" where
  "isAfter (Date a) (Date b) = (b < a)"

text \<open>\<open>digits w n\<close>: the last \<open>w\<close> decimal digits of \<open>n\<close>, padded with zeros.\<close>

definition digits :: "nat \<Rightarrow> int \<Rightarrow> string" where
  "digits w n = map (\<lambda>i. ''0123456789'' ! nat ((n div 10 ^ i) mod 10)) (rev [0..<w])"

text \<open>The proleptic Gregorian date (year, month, day) of a day number counted from
  1970-01-01.\<close>

definition civil_from_days :: "int \<Rightarrow> int \<times> int \<times> int" where
  "civil_from_days z0 =
    (let z = z0 + 719468;
         era = z div 146097;
         doe = z mod 146097;
         yoe = (doe - doe div 1460 + doe div 36524 - doe div 146096) div 365;
         doy = doe - (365 * yoe + yoe div 4 - yoe div 100);
         mp = (5 * doy + 2) div 153;
         d = doy - (153 * mp + 2) div 5 + 1;
         m = (if mp < 10 then mp + 3 else mp - 9);
         y = yoe + era * 400
     in (if m \<le> 2 then y + 1 else y, m, d))"

text \<open>\<^verbatim>\<open>Date.prototype.toISOString\<close>: \<^verbatim>\<open>YYYY-MM-DDTHH:mm:ss.sssZ\<close> in UTC, the year with a
  sign and six digits outside 0..9999.\<close>

fun toISOString :: "js_date \<Rightarrow> string" where
  "toISOString (Date t) =
    (let ms = t mod 86400000;
         (y, m, d) = civil_from_days (t div 86400000)
     in (if 0 \<le> y \<and> y \<le> 9999 then digits 4 y
         else (if y < 0 then ''-'' else ''+'') @ digits 6 (abs y))
        @ ''-'' @ digits 2 m @ ''-'' @ digits 2 d
        @ ''T'' @ digits 2 (ms div 3600000) @ '':'' @ digits 2 (ms div 60000 mod 60)
        @ '':'' @ digits 2 (ms div 1000 mod 60) @ ''.'' @ digits 3 (ms mod 1000) @ ''Z'')"

text \<open>\<^verbatim>\<open>String.prototype.split\<close> with a separator of one character: the pieces between
  the separators, \<^verbatim>\<open>[""]\<close> for the empty string.\<close>

fun split :: "char \<Rightarrow> string \<Rightarrow> string list" where
  "split sep [] = [[]]"
| "split sep (c # cs) =
     (if c = sep then [] # split sep cs
      else (case split sep cs of [] \<Rightarrow> [[c]] | piece # pieces \<Rightarrow> (c # piece) # pieces))"

text \<open>A plain object of the response, as its properties in order, and
  \<^verbatim>\<open>Object.assign(target, source)\<close>: every property of the source is set on the
  target, in place when the target has the key, last otherwise.\<close>

datatype json = JBoolean bool | JString string | JNumber int | JNull

type_synonym json_object = "(string \<times> json) list"

fun Object_assign :: "json_object \<Rightarrow> json_object \<Rightarrow> json_object" where
  "Object_assign target [] = target"
| "Object_assign target ((k, v) # props) = Object_assign (AList.update k v target) props"

subsection \<open>Collaborators\<close>

text \<open>A connector handle (the result of \<^verbatim>\<open>AssetFactory.getAssetImpl\<close>), by what its two
  methods do when called: \<^verbatim>\<open>checkConnection()\<close> resolves (\<open>None\<close>) or throws;
  \<^verbatim>\<open>retrieveConsumptions(asset, manualCall)\<close> throws or resolves to an array whose
  elements are samples or \<^verbatim>\<open>null\<close>/\<^verbatim>\<open>undefined\<close> (\<open>None\<close>).\<close>

record 'v asset_integration =
  checkConnection :: "js_error option"
  retrieveConsumptions :: "'v asset \<Rightarrow> bool \<Rightarrow> js_error + 'v consumption option list"

text \<open>The filtered requests (\<^verbatim>\<open>HttpAssetConsumptionRequest\<close>, \<^verbatim>\<open>HttpAssetsRequest\<close>); an
  optional property that is \<^verbatim>\<open>undefined\<close> or \<^verbatim>\<open>null\<close> is \<open>None\<close>.\<close>

record consumption_request =
  AssetID :: string
  StartDate :: "js_date option"
  EndDate :: "js_date option"

record 'v assets_request =
  Search :: 'v
  SiteAreaID :: "string option"
  SiteID :: "string option"
  ErrorType :: "string option"
  Limit :: 'v
  Skip :: 'v
  SortFields :: 'v
  OnlyRecordCount :: 'v

text \<open>The two parameter objects of \<^verbatim>\<open>AssetStorage.getAssetsInError\<close>; \<^verbatim>\<open>null\<close> is \<open>None\<close>,
  and \<^verbatim>\<open>sort\<close> is written \<open>sortFields\<close>.\<close>

record 'v in_error_filter =
  search :: 'v
  siteAreaIDs :: "string list option"
  siteIDs :: "string list option"
  errorType :: "string list"

record 'v db_params =
  limit :: 'v
  skip :: 'v
  sortFields :: 'v
  onlyRecordCount :: 'v

text \<open>What \<^verbatim>\<open>res.json\<close> is given.\<close>

datatype 'v payload = JsonObject json_object | JsonAsset "'v asset" | JsonValue 'v

text \<open>The calls a handler makes, with their arguments:
  \<^verbatim>\<open>AssetStorage.getAsset\<close> (tenant, id, projected fields),
  \<^verbatim>\<open>AssetStorage.saveAsset\<close> (tenant, asset),
  \<^verbatim>\<open>AssetFactory.getAssetImpl\<close> (tenant, connection reference),
  the handle's \<^verbatim>\<open>checkConnection\<close> and \<^verbatim>\<open>retrieveConsumptions\<close>,
  \<^verbatim>\<open>ConsumptionStorage.getAssetConsumptions\<close> (tenant, asset id, start, end, fields),
  \<^verbatim>\<open>AssetStorage.getAssetsInError\<close> (tenant, filter, parameters, fields),
  \<^verbatim>\<open>Logging.logError\<close> (tenant, user, module, method, message, action, and the
  \<^verbatim>\<open>error\<close> and \<^verbatim>\<open>stack\<close> of its detailed messages), \<^verbatim>\<open>res.json\<close> and \<^verbatim>\<open>next\<close>.\<close>

datatype 'v event =
    GetAsset string string "string list option"
  | SaveAsset string "'v asset"
  | GetAssetImpl string string
  | CheckConnection
  | RetrieveConsumptions "'v asset" bool
  | GetAssetConsumptions string string js_date js_date "string list"
  | GetAssetsInError string "'v in_error_filter" "'v db_params" "string list"
  | LogError string user_token string string string server_action
      "string option" "string option"
  | ResJson "'v payload"
  | Next

text \<open>The environment of a run: the constants of \<^verbatim>\<open>Constants\<close>, the assertions of
  \<^verbatim>\<open>UtilsService\<close> that throw (\<open>Some\<close> the exception) or return, the decisions of
  \<^verbatim>\<open>Authorizations\<close>, the filters of \<^verbatim>\<open>AssetSecurity\<close>, and what the storage and the
  connector registry answer.\<close>

record 'v env =
  CENTRAL_SERVER :: string
  REST_RESPONSE_SUCCESS :: json_object
  assertComponentIsActiveFromToken ::
    "user_token \<Rightarrow> tenant_component \<Rightarrow> action \<Rightarrow> entity \<Rightarrow> string \<Rightarrow> string \<Rightarrow> 'v exn option"
  assertIdIsProvided ::
    "server_action \<Rightarrow> string \<Rightarrow> string \<Rightarrow> string \<Rightarrow> user_token \<Rightarrow> 'v exn option"
  canReadAsset :: "user_token \<Rightarrow> bool"
  canCheckAssetConnection :: "user_token \<Rightarrow> bool"
  canRetrieveAssetConsumption :: "user_token \<Rightarrow> bool"
  canListAssetsInError :: "user_token \<Rightarrow> bool"
  filterAssetConsumptionRequest :: "query \<Rightarrow> consumption_request"
  filterAssetRequestByID :: "query \<Rightarrow> string"
  filterAssetsRequest :: "query \<Rightarrow> 'v assets_request"
  getAsset :: "string \<Rightarrow> string \<Rightarrow> string list option \<Rightarrow> 'v asset option"
  getAssetImpl :: "string \<Rightarrow> string \<Rightarrow> 'v asset_integration option"
  getAssetConsumptions :: "string \<Rightarrow> string \<Rightarrow> js_date \<Rightarrow> js_date \<Rightarrow> string list \<Rightarrow> 'v"
  getAssetsInError :: "string \<Rightarrow> 'v in_error_filter \<Rightarrow> 'v db_params \<Rightarrow> string list \<Rightarrow> 'v"

text \<open>Modelled from the spec: \<^verbatim>\<open>UtilsService.assertObjectExists\<close> is not among the sources.
  The spec has the load of an asset fail with \<^verbatim>\<open>NotFound\<close> if the asset is absent; the
  handlers give it the message, the module and the method.\<close>

definition assertObjectExists ::
    "server_action \<Rightarrow> 'a option \<Rightarrow> string \<Rightarrow> string \<Rightarrow> string \<Rightarrow> user_token \<Rightarrow> 'v exn + 'a" where
  "assertObjectExists action object errorMsg module method userToken =
     (case object of None \<Rightarrow> Inl (NotFound errorMsg module method) | Some obj \<Rightarrow> Inr obj)"

text \<open>Modelled from the spec: \<^verbatim>\<open>Utils.isEmptyArray\<close> is not among the sources. The spec
  has the retrieval do nothing "if the sequence is empty".\<close>

definition isEmptyArray :: "'a list \<Rightarrow> bool" where
  "isEmptyArray array = (case array of [] \<Rightarrow> True | _ # _ \<Rightarrow> False)"

text \<open>Modelled from the spec: \<^verbatim>\<open>AssetInErrorType\<close> is not among the sources. The spec
  names its default category "missing site area".\<close>

definition MISSING_SITE_AREA :: string where
  "MISSING_SITE_AREA = ''missing site area''"

definition MODULE_NAME :: string where
  "MODULE_NAME = ''AssetService''"

text \<open>A template literal with one quoted value: \<^verbatim>\<open>`before '${x}' after`\<close>.\<close>

definition quoted :: "string \<Rightarrow> string" where
  "quoted x = [CHR 0x27] @ x @ [CHR 0x27]"

subsection \<open>handleRetrieveConsumption\<close>

text \<open>\<^verbatim>\<open>consumptions[0]\<close>: the first element, \<^verbatim>\<open>undefined\<close> on an empty array.\<close>

definition first_element :: "'a option list \<Rightarrow> 'a option" where
  "first_element xs = (case xs of [] \<Rightarrow> None | x # _ \<Rightarrow> x)"

definition handleRetrieveConsumption ::
    "'v env \<Rightarrow> server_action \<Rightarrow> request \<Rightarrow> 'v event list \<times> 'v exn option" where
  "handleRetrieveConsumption env action req =
    (case assertComponentIsActiveFromToken env (user req) TenantComponents_ASSET
            RETRIEVE_CONSUMPTION ASSET MODULE_NAME ''handleRetrieveConsumption'' of
       Some e \<Rightarrow> ([], Some e)
     | None \<Rightarrow>
    (if \<not> canRetrieveAssetConsumption env (user req) then
       ([], Some (AppAuthError FORBIDDEN (user req) RETRIEVE_CONSUMPTION ASSET
                    MODULE_NAME ''handleRetrieveConsumption'' None))
     else
    (let assetID = filterAssetRequestByID env (query req) in
    (case assertIdIsProvided env action assetID MODULE_NAME ''handleRetrieveConsumption''
            (user req) of
       Some e \<Rightarrow> ([], Some e)
     | None \<Rightarrow>
    (let t1 = [GetAsset (tenantID (user req)) assetID None] in
    (case assertObjectExists action (getAsset env (tenantID (user req)) assetID None)
            (''Asset ID '' @ quoted assetID @ '' does not exist'')
            MODULE_NAME ''handleRetrieveConsumption'' (user req) of
       Inl e \<Rightarrow> (t1, Some e)
     | Inr asset \<Rightarrow>
    (if \<not> dynamicAsset asset then
       (t1, Some (AppError (CENTRAL_SERVER env) GENERAL_ERROR
                    ''This Asset is not dynamic, no consumption can be retrieved''
                    MODULE_NAME ''handleRetrieveConsumption''
                    (Some action) (Some (user req)) (Some asset)))
     else
    (let t2 = t1 @ [GetAssetImpl (tenantID (user req)) (connectionID asset)] in
    (case getAssetImpl env (tenantID (user req)) (connectionID asset) of
       None \<Rightarrow>
         (t2, Some (AppError (CENTRAL_SERVER env) GENERAL_ERROR
                      ''Asset service is not configured''
                      MODULE_NAME ''handleRetrieveConsumption''
                      (Some RETRIEVE_ASSET_CONSUMPTION) None None))
     | Some assetImpl \<Rightarrow>
    (let t3 = t2 @ [RetrieveConsumptions asset True] in
    (case retrieveConsumptions assetImpl asset True of
       Inl error \<Rightarrow> (t3, Some (Thrown error))
     | Inr consumptions \<Rightarrow>
    (let t4 =
      (if \<not> isEmptyArray consumptions then
         (case first_element consumptions of
            Some consumption \<Rightarrow>
              t3 @ [SaveAsset (tenantID (user req)) (asset \<lparr>
                lastConsumption := consumption.lastConsumption consumption,
                currentConsumptionWh := consumption.currentConsumptionWh consumption,
                currentInstantAmps := consumption.currentInstantAmps consumption,
                currentInstantAmpsL1 := consumption.currentInstantAmpsL1 consumption,
                currentInstantAmpsL2 := consumption.currentInstantAmpsL2 consumption,
                currentInstantAmpsL3 := consumption.currentInstantAmpsL3 consumption,
                currentInstantVolts := consumption.currentInstantVolts consumption,
                currentInstantVoltsL1 := consumption.currentInstantVoltsL1 consumption,
                currentInstantVoltsL2 := consumption.currentInstantVoltsL2 consumption,
                currentInstantVoltsL3 := consumption.currentInstantVoltsL3 consumption,
                currentInstantWatts := consumption.currentInstantWatts consumption,
                currentInstantWattsL1 := consumption.currentInstantWattsL1 consumption,
                currentInstantWattsL2 := consumption.currentInstantWattsL2 consumption,
                currentInstantWattsL3 := consumption.currentInstantWattsL3 consumption,
                currentStateOfCharge := consumption.currentStateOfCharge consumption \<rparr>)]
          | None \<Rightarrow> t3)
       else t3)
     in (t4 @ [ResJson (JsonObject (REST_RESPONSE_SUCCESS env)), Next], None)))))))))))))"

subsection \<open>handleCheckAssetConnection\<close>

text \<open>The \<^verbatim>\<open>catch\<close> block builds the argument of \<^verbatim>\<open>Logging.logError\<close> first, reading
  \<^verbatim>\<open>error.message\<close> and \<^verbatim>\<open>error.stack\<close> of the thrown value: on \<^verbatim>\<open>null\<close> or \<^verbatim>\<open>undefined\<close> the
  read throws, inside the \<^verbatim>\<open>catch\<close> block, before anything is logged or answered.\<close>

definition handleCheckAssetConnection ::
    "'v env \<Rightarrow> server_action \<Rightarrow> request \<Rightarrow> 'v event list \<times> 'v exn option" where
  "handleCheckAssetConnection env action req =
    (case assertComponentIsActiveFromToken env (user req) TenantComponents_ASSET
            CHECK_CONNECTION ASSET MODULE_NAME ''handleCheckAssetConnection'' of
       Some e \<Rightarrow> ([], Some e)
     | None \<Rightarrow>
    (let filteredRequest = filterAssetRequestByID env (query req);
         t1 = [GetAssetImpl (tenantID (user req)) filteredRequest] in
    (case getAssetImpl env (tenantID (user req)) filteredRequest of
       None \<Rightarrow>
         (t1, Some (AppError (CENTRAL_SERVER env) GENERAL_ERROR
                      ''Asset service is not configured''
                      MODULE_NAME ''handleCheckAssetConnection''
                      (Some action) (Some (user req)) None))
     | Some assetImpl \<Rightarrow>
    (if \<not> canCheckAssetConnection env (user req) then
       (t1, Some (AppAuthError FORBIDDEN (user req) CHECK_CONNECTION ASSET
                    MODULE_NAME ''handleCheckAssetConnection'' None))
     else
    (let t2 = t1 @ [CheckConnection] in
    (case checkConnection assetImpl of
       None \<Rightarrow>
         (t2 @ [ResJson (JsonObject (Object_assign [(''connectionIsValid'', JBoolean True)]
                                       (REST_RESPONSE_SUCCESS env))),
                Next], None)
     | Some Nullish \<Rightarrow> (t2, Some TypeError)
     | Some (Error error_message error_stack) \<Rightarrow>
         (t2 @ [LogError (tenantID (user req)) (user req)
                  MODULE_NAME ''handleCheckAssetConnection'' ''Asset connection failed''
                  action error_message error_stack,
                ResJson (JsonObject (Object_assign [(''connectionIsValid'', JBoolean False)]
                                       (REST_RESPONSE_SUCCESS env))),
                Next], None)))))))"

subsection \<open>handleGetAssetConsumption\<close>

text \<open>After the first check of the dates both are present, so the second check's
  \<^verbatim>\<open>filteredRequest.StartDate && filteredRequest.EndDate\<close> holds and what is left of it is
  \<^verbatim>\<open>isAfter\<close>.\<close>

definition handleGetAssetConsumption ::
    "'v env \<Rightarrow> server_action \<Rightarrow> request \<Rightarrow> 'v event list \<times> 'v exn option" where
  "handleGetAssetConsumption env action req =
    (case assertComponentIsActiveFromToken env (user req) TenantComponents_ASSET
            LIST ASSETS MODULE_NAME ''handleGetAssetConsumption'' of
       Some e \<Rightarrow> ([], Some e)
     | None \<Rightarrow>
    (let filteredRequest = filterAssetConsumptionRequest env (query req) in
    (case assertIdIsProvided env action (AssetID filteredRequest) MODULE_NAME
            ''handleGetAssetConsumption'' (user req) of
       Some e \<Rightarrow> ([], Some e)
     | None \<Rightarrow>
    (if \<not> canReadAsset env (user req) then
       ([], Some (AppAuthError FORBIDDEN (user req) READ ASSET
                    MODULE_NAME ''handleGetAsset'' (Some (AssetID filteredRequest))))
     else
    (let t1 = [GetAsset (tenantID (user req)) (AssetID filteredRequest)
                 (Some [''id'', ''name''])] in
    (case assertObjectExists action
            (getAsset env (tenantID (user req)) (AssetID filteredRequest)
               (Some [''id'', ''name'']))
            (''Asset ID '' @ quoted (AssetID filteredRequest) @ '' does not exist'')
            MODULE_NAME ''handleGetAssetConsumption'' (user req) of
       Inl e \<Rightarrow> (t1, Some e)
     | Inr asset \<Rightarrow>
    (case (StartDate filteredRequest, EndDate filteredRequest) of
       (Some startDate, Some endDate) \<Rightarrow>
         (if isAfter startDate endDate then
            (t1, Some (AppError (CENTRAL_SERVER env) GENERAL_ERROR
                         (''The requested start date '' @ quoted (toISOString startDate)
                            @ '' is after the end date '' @ quoted (toISOString endDate)
                            @ '' '')
                         MODULE_NAME ''handleGetAssetConsumption''
                         (Some action) (Some (user req)) None))
          else
            (let fields = [''startedAt'', ''instantWatts'', ''instantAmps'', ''limitWatts'',
                           ''limitAmps'', ''endedAt'', ''stateOfCharge''];
                 consumptions = getAssetConsumptions env (tenantID (user req))
                                  (AssetID filteredRequest) startDate endDate fields
             in (t1 @ [GetAssetConsumptions (tenantID (user req)) (AssetID filteredRequest)
                         startDate endDate fields,
                       ResJson (JsonAsset (asset \<lparr> values_asset := consumptions \<rparr>)),
                       Next], None)))
     | _ \<Rightarrow>
         (t1, Some (AppError (CENTRAL_SERVER env) GENERAL_ERROR
                      ''Start date and end date must be provided''
                      MODULE_NAME ''handleGetAssetConsumption''
                      (Some action) (Some (user req)) None)))))))))"

subsection \<open>handleGetAssetsInError\<close>

text \<open>\<^verbatim>\<open>x ? x.split('|') : otherwise\<close> on an optional string \<open>x\<close>: \<^verbatim>\<open>undefined\<close>, \<^verbatim>\<open>null\<close> and the
  empty string are false, every other string is true.\<close>

definition split_or :: "string option \<Rightarrow> 'a \<Rightarrow> (string list \<Rightarrow> 'a) \<Rightarrow> 'a" where
  "split_or x otherwise f =
     (case x of
        None \<Rightarrow> otherwise
      | Some s \<Rightarrow> (if s = [] then otherwise else f (split CHR ''|'' s)))"

definition handleGetAssetsInError ::
    "'v env \<Rightarrow> server_action \<Rightarrow> request \<Rightarrow> 'v event list \<times> 'v exn option" where
  "handleGetAssetsInError env action req =
    (case assertComponentIsActiveFromToken env (user req) TenantComponents_ASSET
            LIST ASSETS MODULE_NAME ''handleGetAssetsInError'' of
       Some e \<Rightarrow> ([], Some e)
     | None \<Rightarrow>
    (if \<not> canListAssetsInError env (user req) then
       ([], Some (AppAuthError FORBIDDEN (user req) IN_ERROR ASSETS
                    MODULE_NAME ''handleGetAssetsInError'' None))
     else
    (let filteredRequest = filterAssetsRequest env (query req);
         errorType = split_or (ErrorType filteredRequest) [MISSING_SITE_AREA] (\<lambda>l. l);
         filter_params = \<lparr>
           search = Search filteredRequest,
           siteAreaIDs = split_or (SiteAreaID filteredRequest) None Some,
           siteIDs = split_or (SiteID filteredRequest) None Some,
           errorType = errorType \<rparr>;
         db_params = \<lparr>
           limit = Limit filteredRequest,
           skip = Skip filteredRequest,
           sortFields = SortFields filteredRequest,
           onlyRecordCount = OnlyRecordCount filteredRequest \<rparr>;
         fields = [''id'', ''name'', ''errorCodeDetails'', ''errorCode''];
         assets = getAssetsInError env (tenantID (user req)) filter_params db_params fields
     in ([GetAssetsInError (tenantID (user req)) filter_params db_params fields,
          ResJson (JsonValue assets), Next], None))))"

section \<open>Properties\<close>

subsection \<open>What the properties speak of\<close>

text \<open>The calls of \<^verbatim>\<open>AssetStorage.saveAsset\<close> in a run, with their arguments, and the calls
  of \<^verbatim>\<open>ConsumptionStorage.getAssetConsumptions\<close>, by their dates.\<close>

fun saveAsset_calls :: "'v event list \<Rightarrow> (string \<times> 'v asset) list" where
  "saveAsset_calls [] = []"
| "saveAsset_calls (SaveAsset tenant a # es) = (tenant, a) # saveAsset_calls es"
| "saveAsset_calls (_ # es) = saveAsset_calls es"

fun getAssetConsumptions_calls :: "'v event list \<Rightarrow> (js_date \<times> js_date) list" where
  "getAssetConsumptions_calls [] = []"
| "getAssetConsumptions_calls (GetAssetConsumptions tenant a startDate endDate fs # es) =
     (startDate, endDate) # getAssetConsumptions_calls es"
| "getAssetConsumptions_calls (_ # es) = getAssetConsumptions_calls es"

text \<open>The filters \<^verbatim>\<open>AssetStorage.getAssetsInError\<close> is called with in a run.\<close>

fun getAssetsInError_filters :: "'v event list \<Rightarrow> 'v in_error_filter list" where
  "getAssetsInError_filters [] = []"
| "getAssetsInError_filters (GetAssetsInError tenant f ps fs # es) =
     f # getAssetsInError_filters es"
| "getAssetsInError_filters (_ # es) = getAssetsInError_filters es"

text \<open>A retrieval request gets as far as its asset: the component is active, the caller
  may retrieve consumptions, the id is provided and the storage has the asset.\<close>

definition retrieve_loads :: "'v env \<Rightarrow> server_action \<Rightarrow> request \<Rightarrow> 'v asset \<Rightarrow> bool" where
  "retrieve_loads env action req asset \<longleftrightarrow>
     assertComponentIsActiveFromToken env (user req) TenantComponents_ASSET
       RETRIEVE_CONSUMPTION ASSET MODULE_NAME ''handleRetrieveConsumption'' = None \<and>
     canRetrieveAssetConsumption env (user req) \<and>
     assertIdIsProvided env action (filterAssetRequestByID env (query req)) MODULE_NAME
       ''handleRetrieveConsumption'' (user req) = None \<and>
     getAsset env (tenantID (user req)) (filterAssetRequestByID env (query req)) None
       = Some asset"

text \<open>A retrieval request gets as far as the samples: its asset is dynamic, a connector
  resolves for the asset's connection, and the connector returns the samples.\<close>

definition retrieve_samples ::
    "'v env \<Rightarrow> server_action \<Rightarrow> request \<Rightarrow> 'v asset \<Rightarrow> 'v consumption option list \<Rightarrow> bool" where
  "retrieve_samples env action req asset consumptions \<longleftrightarrow>
     retrieve_loads env action req asset \<and> dynamicAsset asset \<and>
     (case getAssetImpl env (tenantID (user req)) (connectionID asset) of
        None \<Rightarrow> False
      | Some assetImpl \<Rightarrow> retrieveConsumptions assetImpl asset True = Inr consumptions)"

text \<open>The live-state field group of an asset holds the values of a sample.\<close>

definition live_state_of :: "'v consumption \<Rightarrow> 'v asset \<Rightarrow> bool" where
  "live_state_of sample a \<longleftrightarrow>
     lastConsumption a = consumption.lastConsumption sample \<and>
     currentConsumptionWh a = consumption.currentConsumptionWh sample \<and>
     currentInstantAmps a = consumption.currentInstantAmps sample \<and>
     currentInstantAmpsL1 a = consumption.currentInstantAmpsL1 sample \<and>
     currentInstantAmpsL2 a = consumption.currentInstantAmpsL2 sample \<and>
     currentInstantAmpsL3 a = consumption.currentInstantAmpsL3 sample \<and>
     currentInstantVolts a = consumption.currentInstantVolts sample \<and>
     currentInstantVoltsL1 a = consumption.currentInstantVoltsL1 sample \<and>
     currentInstantVoltsL2 a = consumption.currentInstantVoltsL2 sample \<and>
     currentInstantVoltsL3 a = consumption.currentInstantVoltsL3 sample \<and>
     currentInstantWatts a = consumption.currentInstantWatts sample \<and>
     currentInstantWattsL1 a = consumption.currentInstantWattsL1 sample \<and>
     currentInstantWattsL2 a = consumption.currentInstantWattsL2 sample \<and>
     currentInstantWattsL3 a = consumption.currentInstantWattsL3 sample \<and>
     currentStateOfCharge a = consumption.currentStateOfCharge sample"

text \<open>Two assets agree on every field outside the live-state group.\<close>

definition same_other_fields :: "'v asset \<Rightarrow> 'v asset \<Rightarrow> bool" where
  "same_other_fields a b \<longleftrightarrow>
     id_asset b = id_asset a \<and> name b = name a \<and> siteAreaID b = siteAreaID a \<and>
     siteID b = siteID a \<and> assetType b = assetType a \<and>
     excludeFromSmartCharging b = excludeFromSmartCharging a \<and>
     fluctuationPercent b = fluctuationPercent a \<and> staticValueWatt b = staticValueWatt a \<and>
     coordinates b = coordinates a \<and> image_asset b = image_asset a \<and>
     dynamicAsset b = dynamicAsset a \<and> connectionID b = connectionID a \<and>
     meterID b = meterID a \<and> createdBy b = createdBy a \<and> createdOn b = createdOn a \<and>
     lastChangedBy b = lastChangedBy a \<and> lastChangedOn b = lastChangedOn a \<and>
     values_asset b = values_asset a"

text \<open>A connection check gets as far as the registry (the component is active), and as
  far as the probe of a handle (the handle resolves and the caller may check).\<close>

definition check_active :: "'v env \<Rightarrow> request \<Rightarrow> bool" where
  "check_active env req \<longleftrightarrow>
     assertComponentIsActiveFromToken env (user req) TenantComponents_ASSET
       CHECK_CONNECTION ASSET MODULE_NAME ''handleCheckAssetConnection'' = None"

definition check_probes :: "'v env \<Rightarrow> request \<Rightarrow> 'v asset_integration \<Rightarrow> bool" where
  "check_probes env req assetImpl \<longleftrightarrow>
     check_active env req \<and>
     getAssetImpl env (tenantID (user req)) (filterAssetRequestByID env (query req))
       = Some assetImpl \<and>
     canCheckAssetConnection env (user req)"

text \<open>A consumption query gets as far as loading its asset: the component is active, the
  id is provided and the caller may read assets.\<close>

definition consumption_admitted :: "'v env \<Rightarrow> server_action \<Rightarrow> request \<Rightarrow> bool" where
  "consumption_admitted env action req \<longleftrightarrow>
     assertComponentIsActiveFromToken env (user req) TenantComponents_ASSET
       LIST ASSETS MODULE_NAME ''handleGetAssetConsumption'' = None \<and>
     assertIdIsProvided env action (AssetID (filterAssetConsumptionRequest env (query req)))
       MODULE_NAME ''handleGetAssetConsumption'' (user req) = None \<and>
     canReadAsset env (user req)"

text \<open>An error listing gets as far as the store: the component is active and the caller
  may list assets in error.\<close>

definition in_error_admitted :: "'v env \<Rightarrow> request \<Rightarrow> bool" where
  "in_error_admitted env req \<longleftrightarrow>
     assertComponentIsActiveFromToken env (user req) TenantComponents_ASSET
       LIST ASSETS MODULE_NAME ''handleGetAssetsInError'' = None \<and>
     canListAssetsInError env (user req)"

subsection \<open>Example runs\<close>

text \<open>A tenant with one stored asset and one connection, \<^verbatim>\<open>meter-7\<close>. The opaque values
  are optional integers, \<open>None\<close> for \<^verbatim>\<open>undefined\<close>. Every component is active, an id is
  provided when it is not empty, and the filters read the query's \<^verbatim>\<open>ID\<close> and
  \<^verbatim>\<open>SiteAreaID\<close>; the caller's rights, the stored asset, the connector and the dates of a
  consumption query vary from run to run.\<close>

definition example_user :: user_token where
  "example_user = \<lparr> user_id = ''u1'', tenantID = ''t1'' \<rparr>"

definition example_request :: "query \<Rightarrow> request" where
  "example_request q = \<lparr> user = example_user, query = q \<rparr>"

definition example_asset :: "string \<Rightarrow> bool \<Rightarrow> int option asset" where
  "example_asset i dynamic = \<lparr>
     id_asset = i, name = ''Battery'', siteAreaID = Some 11, siteID = Some 5,
     assetType = Some 2, excludeFromSmartCharging = None, fluctuationPercent = Some 10,
     staticValueWatt = Some 9000, coordinates = None, image_asset = None,
     dynamicAsset = dynamic, connectionID = ''meter-7'', meterID = Some 7,
     createdBy = Some 1, createdOn = Some 1600000000, lastChangedBy = None,
     lastChangedOn = None,
     lastConsumption = Some 100, currentConsumptionWh = Some 25,
     currentInstantAmps = Some 3, currentInstantAmpsL1 = Some 1,
     currentInstantAmpsL2 = Some 1, currentInstantAmpsL3 = Some 1,
     currentInstantVolts = Some 230, currentInstantVoltsL1 = Some 230,
     currentInstantVoltsL2 = Some 230, currentInstantVoltsL3 = Some 230,
     currentInstantWatts = Some 690, currentInstantWattsL1 = Some 230,
     currentInstantWattsL2 = Some 230, currentInstantWattsL3 = Some 230,
     currentStateOfCharge = Some 50, values_asset = None \<rparr>"

text \<open>The sample \<^verbatim>\<open>{currentInstantWatts: 4200, currentStateOfCharge: 73}\<close>.\<close>

definition example_sample :: "int option consumption" where
  "example_sample = \<lparr>
     consumption.lastConsumption = None, consumption.currentConsumptionWh = None,
     consumption.currentInstantAmps = None, consumption.currentInstantAmpsL1 = None,
     consumption.currentInstantAmpsL2 = None, consumption.currentInstantAmpsL3 = None,
     consumption.currentInstantVolts = None, consumption.currentInstantVoltsL1 = None,
     consumption.currentInstantVoltsL2 = None, consumption.currentInstantVoltsL3 = None,
     consumption.currentInstantWatts = Some 4200, consumption.currentInstantWattsL1 = None,
     consumption.currentInstantWattsL2 = None, consumption.currentInstantWattsL3 = None,
     consumption.currentStateOfCharge = Some 73 \<rparr>"

definition example_connector ::
    "js_error option \<Rightarrow> js_error + int option consumption option list
       \<Rightarrow> int option asset_integration" where
  "example_connector probe samples =
     \<lparr> checkConnection = probe, retrieveConsumptions = (\<lambda>a manualCall. samples) \<rparr>"

definition query_param :: "query \<Rightarrow> string \<Rightarrow> string option" where
  "query_param q k = map_of q k"

definition example_env ::
    "bool \<Rightarrow> int option asset option \<Rightarrow> int option asset_integration option
       \<Rightarrow> js_date option \<times> js_date option \<Rightarrow> int option env" where
  "example_env authorized stored connector dates = \<lparr>
     CENTRAL_SERVER = ''Central Server'',
     REST_RESPONSE_SUCCESS = [(''status'', JString ''Success'')],
     assertComponentIsActiveFromToken = (\<lambda>u c a e m1 m2. None),
     assertIdIsProvided = (\<lambda>a i m1 m2 u.
       if i = [] then Some (AppError ''Central Server'' GENERAL_ERROR
                              ''The ID must be provided'' m1 m2 (Some a) (Some u) None)
       else None),
     canReadAsset = (\<lambda>u. authorized),
     canCheckAssetConnection = (\<lambda>u. authorized),
     canRetrieveAssetConsumption = (\<lambda>u. authorized),
     canListAssetsInError = (\<lambda>u. authorized),
     filterAssetConsumptionRequest = (\<lambda>q. \<lparr>
       AssetID = (case query_param q ''AssetID'' of None \<Rightarrow> [] | Some i \<Rightarrow> i),
       StartDate = fst dates, EndDate = snd dates \<rparr>),
     filterAssetRequestByID = (\<lambda>q. case query_param q ''ID'' of None \<Rightarrow> [] | Some i \<Rightarrow> i),
     filterAssetsRequest = (\<lambda>q. \<lparr>
       Search = None, SiteAreaID = query_param q ''SiteAreaID'',
       SiteID = query_param q ''SiteID'', ErrorType = query_param q ''ErrorType'',
       Limit = Some 100, Skip = Some 0, SortFields = None, OnlyRecordCount = None \<rparr>),
     getAsset = (\<lambda>tenant i projectFields.
       case stored of
         None \<Rightarrow> None
       | Some a \<Rightarrow> (if tenant = ''t1'' \<and> i = id_asset a then Some a else None)),
     getAssetImpl = (\<lambda>tenant connection.
       if tenant = ''t1'' \<and> connection = ''meter-7'' then connector else None),
     getAssetConsumptions = (\<lambda>tenant i startDate endDate fs. None),
     getAssetsInError = (\<lambda>tenant f ps fs. None) \<rparr>"

text \<open>The asset \<^verbatim>\<open>A1\<close> after the merge of the sample.\<close>

definition example_merged :: "int option asset" where
  "example_merged = \<lparr>
     id_asset = ''A1'', name = ''Battery'', siteAreaID = Some 11, siteID = Some 5,
     assetType = Some 2, excludeFromSmartCharging = None, fluctuationPercent = Some 10,
     staticValueWatt = Some 9000, coordinates = None, image_asset = None,
     dynamicAsset = True, connectionID = ''meter-7'', meterID = Some 7,
     createdBy = Some 1, createdOn = Some 1600000000, lastChangedBy = None,
     lastChangedOn = None,
     lastConsumption = None, currentConsumptionWh = None,
     currentInstantAmps = None, currentInstantAmpsL1 = None,
     currentInstantAmpsL2 = None, currentInstantAmpsL3 = None,
     currentInstantVolts = None, currentInstantVoltsL1 = None,
     currentInstantVoltsL2 = None, currentInstantVoltsL3 = None,
     currentInstantWatts = Some 4200, currentInstantWattsL1 = None,
     currentInstantWattsL2 = None, currentInstantWattsL3 = None,
     currentStateOfCharge = Some 73, values_asset = None \<rparr>"

lemmas example_defs = example_env_def example_request_def example_user_def example_asset_def
  example_connector_def example_sample_def query_param_def

subsection \<open>Live retrieval\<close>

text \<open>
  C1. For every asset with \<^verbatim>\<open>dynamicAsset == false\<close>, a retrieval request that loads the
  asset fails with the error "This Asset is not dynamic, no consumption can be
  retrieved" (an \<^verbatim>\<open>AppError\<close>), having called the storage for the asset only:
  \<^verbatim>\<open>saveAsset\<close> is never called.
\<close>

theorem retrieve_not_dynamic:
  assumes "retrieve_loads env action req asset" and "\<not> dynamicAsset asset"
  shows "handleRetrieveConsumption env action req =
           ([GetAsset (tenantID (user req)) (filterAssetRequestByID env (query req)) None],
            Some (AppError (CENTRAL_SERVER env) GENERAL_ERROR
                    ''This Asset is not dynamic, no consumption can be retrieved''
                    MODULE_NAME ''handleRetrieveConsumption''
                    (Some action) (Some (user req)) (Some asset)))
         \<and> saveAsset_calls (fst (handleRetrieveConsumption env action req)) = []"
  using assms
  by (simp add: retrieve_loads_def handleRetrieveConsumption_def assertObjectExists_def Let_def)

theorem retrieve_not_dynamic_witness:
  "retrieve_loads (example_env True (Some (example_asset ''A1'' False)) None (None, None))
       RETRIEVE_ASSET_CONSUMPTION (example_request [(''ID'', ''A1'')])
       (example_asset ''A1'' False)
   \<and> \<not> dynamicAsset (example_asset ''A1'' False)
   \<and> handleRetrieveConsumption
         (example_env True (Some (example_asset ''A1'' False)) None (None, None))
         RETRIEVE_ASSET_CONSUMPTION (example_request [(''ID'', ''A1'')]) =
       ([GetAsset ''t1'' ''A1'' None],
        Some (AppError ''Central Server'' GENERAL_ERROR
                ''This Asset is not dynamic, no consumption can be retrieved''
                ''AssetService'' ''handleRetrieveConsumption''
                (Some RETRIEVE_ASSET_CONSUMPTION) (Some example_user)
                (Some (example_asset ''A1'' False))))
   \<and> saveAsset_calls (fst (handleRetrieveConsumption
         (example_env True (Some (example_asset ''A1'' False)) None (None, None))
         RETRIEVE_ASSET_CONSUMPTION (example_request [(''ID'', ''A1'')]))) = []"
proof -
  have l: "retrieve_loads
       (example_env True (Some (example_asset ''A1'' False)) None (None, None))
       RETRIEVE_ASSET_CONSUMPTION (example_request [(''ID'', ''A1'')])
       (example_asset ''A1'' False)"
    by (simp add: retrieve_loads_def example_defs)
  have d: "\<not> dynamicAsset (example_asset ''A1'' False)"
    by (simp add: example_asset_def)
  show ?thesis
    using l d retrieve_not_dynamic [OF l d]
    by (simp add: example_defs MODULE_NAME_def)
qed

text \<open>
  C2. A merge leaves every field outside the live-state group as it was: whatever a run
  of the retrieval saves is the asset the storage returned for the request, with its
  live-state group (\<^verbatim>\<open>lastConsumption\<close>, \<^verbatim>\<open>currentConsumptionWh\<close>, the instant amps, volts
  and watts with their three phases, \<^verbatim>\<open>currentStateOfCharge\<close>) taken as a whole from the
  first sample of the connector, and with \<^verbatim>\<open>name\<close>, \<^verbatim>\<open>siteAreaID\<close>, \<^verbatim>\<open>assetType\<close>,
  \<^verbatim>\<open>connectionID\<close> and every other field unchanged.
\<close>

theorem merge_frame:
  assumes "(tenant, saved)
             \<in> set (saveAsset_calls (fst (handleRetrieveConsumption env action req)))"
  shows "\<exists>asset assetImpl sample rest.
           getAsset env (tenantID (user req)) (filterAssetRequestByID env (query req)) None
             = Some asset
         \<and> getAssetImpl env (tenantID (user req)) (connectionID asset) = Some assetImpl
         \<and> retrieveConsumptions assetImpl asset True = Inr (Some sample # rest)
         \<and> live_state_of sample saved \<and> same_other_fields asset saved"
  using assms
  by (auto simp: handleRetrieveConsumption_def assertObjectExists_def Let_def isEmptyArray_def
      first_element_def live_state_of_def same_other_fields_def
      split: option.splits sum.splits if_splits list.splits)

theorem merge_frame_witness:
  "(''t1'', example_merged)
     \<in> set (saveAsset_calls (fst (handleRetrieveConsumption
              (example_env True (Some (example_asset ''A1'' True))
                 (Some (example_connector None (Inr [Some example_sample]))) (None, None))
              RETRIEVE_ASSET_CONSUMPTION (example_request [(''ID'', ''A1'')]))))
   \<and> live_state_of example_sample example_merged
   \<and> same_other_fields (example_asset ''A1'' True) example_merged
   \<and> name example_merged = ''Battery'' \<and> siteAreaID example_merged = Some 11
   \<and> assetType example_merged = Some 2 \<and> connectionID example_merged = ''meter-7''"
proof -
  let ?run = "handleRetrieveConsumption
      (example_env True (Some (example_asset ''A1'' True))
         (Some (example_connector None (Inr [Some example_sample]))) (None, None))
      RETRIEVE_ASSET_CONSUMPTION (example_request [(''ID'', ''A1'')])"
  have m: "(''t1'', example_merged) \<in> set (saveAsset_calls (fst ?run))"
    by (simp add: handleRetrieveConsumption_def assertObjectExists_def Let_def
        isEmptyArray_def first_element_def example_defs example_merged_def MODULE_NAME_def)
  from merge_frame [OF m]
  have "live_state_of example_sample example_merged
      \<and> same_other_fields (example_asset ''A1'' True) example_merged"
    by (auto simp: example_env_def example_request_def example_user_def query_param_def
        example_connector_def example_asset_def split: if_splits)
  with m show ?thesis
    by (simp add: same_other_fields_def example_asset_def)
qed

text \<open>
  C3. For every dynamic asset whose connector returns a sequence of samples that starts
  with a sample, the retrieval calls \<^verbatim>\<open>saveAsset\<close> exactly once, between the connector's
  answer and the success response, with the asset carrying the first sample's
  live-state values and otherwise unchanged. In the run of asset \<^verbatim>\<open>A1\<close> on connection
  \<^verbatim>\<open>meter-7\<close> with the one sample \<^verbatim>\<open>{currentInstantWatts: 4200, currentStateOfCharge: 73}\<close>
  the saved asset has \<^verbatim>\<open>currentInstantWatts = 4200\<close> and \<^verbatim>\<open>currentStateOfCharge = 73\<close>.
\<close>

theorem retrieve_first_sample:
  assumes "retrieve_samples env action req asset (Some sample # rest)"
  shows "\<exists>saved.
           handleRetrieveConsumption env action req =
             ([GetAsset (tenantID (user req)) (filterAssetRequestByID env (query req)) None,
               GetAssetImpl (tenantID (user req)) (connectionID asset),
               RetrieveConsumptions asset True,
               SaveAsset (tenantID (user req)) saved,
               ResJson (JsonObject (REST_RESPONSE_SUCCESS env)), Next], None)
         \<and> saveAsset_calls (fst (handleRetrieveConsumption env action req))
             = [(tenantID (user req), saved)]
         \<and> live_state_of sample saved \<and> same_other_fields asset saved"
  using assms
  by (auto simp: retrieve_samples_def retrieve_loads_def handleRetrieveConsumption_def
      assertObjectExists_def Let_def isEmptyArray_def first_element_def
      live_state_of_def same_other_fields_def split: option.splits)

theorem retrieve_first_sample_witness:
  "retrieve_samples
     (example_env True (Some (example_asset ''A1'' True))
        (Some (example_connector None (Inr [Some example_sample]))) (None, None))
     RETRIEVE_ASSET_CONSUMPTION (example_request [(''ID'', ''A1'')])
     (example_asset ''A1'' True) [Some example_sample]
   \<and> (\<exists>saved.
         saveAsset_calls (fst (handleRetrieveConsumption
           (example_env True (Some (example_asset ''A1'' True))
              (Some (example_connector None (Inr [Some example_sample]))) (None, None))
           RETRIEVE_ASSET_CONSUMPTION (example_request [(''ID'', ''A1'')])))
           = [(''t1'', saved)]
       \<and> currentInstantWatts saved = Some 4200 \<and> currentStateOfCharge saved = Some 73)"
proof -
  have s: "retrieve_samples
     (example_env True (Some (example_asset ''A1'' True))
        (Some (example_connector None (Inr [Some example_sample]))) (None, None))
     RETRIEVE_ASSET_CONSUMPTION (example_request [(''ID'', ''A1'')])
     (example_asset ''A1'' True) [Some example_sample]"
    by (simp add: retrieve_samples_def retrieve_loads_def example_defs)
  have t: "tenantID (user (example_request [(''ID'', ''A1'')])) = ''t1''"
    by (simp add: example_request_def example_user_def)
  have v: "consumption.currentInstantWatts example_sample = Some 4200
         \<and> consumption.currentStateOfCharge example_sample = Some 73"
    by (simp add: example_sample_def)
  from retrieve_first_sample [OF s] t v show ?thesis
    using s unfolding live_state_of_def by auto
qed

text \<open>
  C6. For every dynamic asset whose connector returns the empty sequence, the retrieval
  merges nothing, does not call \<^verbatim>\<open>saveAsset\<close>, and completes without an exception,
  answering with the generic success response.
\<close>

theorem retrieve_empty:
  assumes "retrieve_samples env action req asset []"
  shows "handleRetrieveConsumption env action req =
           ([GetAsset (tenantID (user req)) (filterAssetRequestByID env (query req)) None,
             GetAssetImpl (tenantID (user req)) (connectionID asset),
             RetrieveConsumptions asset True,
             ResJson (JsonObject (REST_RESPONSE_SUCCESS env)), Next], None)
         \<and> saveAsset_calls (fst (handleRetrieveConsumption env action req)) = []"
  using assms
  by (auto simp: retrieve_samples_def retrieve_loads_def handleRetrieveConsumption_def
      assertObjectExists_def Let_def isEmptyArray_def first_element_def split: option.splits)

theorem retrieve_empty_witness:
  "retrieve_samples
     (example_env True (Some (example_asset ''A1'' True))
        (Some (example_connector None (Inr []))) (None, None))
     RETRIEVE_ASSET_CONSUMPTION (example_request [(''ID'', ''A1'')])
     (example_asset ''A1'' True) []
   \<and> handleRetrieveConsumption
       (example_env True (Some (example_asset ''A1'' True))
          (Some (example_connector None (Inr []))) (None, None))
       RETRIEVE_ASSET_CONSUMPTION (example_request [(''ID'', ''A1'')]) =
       ([GetAsset ''t1'' ''A1'' None, GetAssetImpl ''t1'' ''meter-7'',
         RetrieveConsumptions (example_asset ''A1'' True) True,
         ResJson (JsonObject [(''status'', JString ''Success'')]), Next], None)"
proof -
  have s: "retrieve_samples
     (example_env True (Some (example_asset ''A1'' True))
        (Some (example_connector None (Inr []))) (None, None))
     RETRIEVE_ASSET_CONSUMPTION (example_request [(''ID'', ''A1'')])
     (example_asset ''A1'' True) []"
    by (simp add: retrieve_samples_def retrieve_loads_def example_defs)
  show ?thesis
    using s retrieve_empty [OF s]
    by (simp add: example_defs)
qed

text \<open>
  C9. For every dynamic asset whose connector returns a sequence that starts with
  \<^verbatim>\<open>null\<close> or \<^verbatim>\<open>undefined\<close>, the retrieval merges nothing and does not call \<^verbatim>\<open>saveAsset\<close>,
  yet answers with the generic success response: the run is that of the empty sequence.
\<close>

theorem retrieve_null_first:
  assumes "retrieve_samples env action req asset (None # rest)"
  shows "handleRetrieveConsumption env action req =
           ([GetAsset (tenantID (user req)) (filterAssetRequestByID env (query req)) None,
             GetAssetImpl (tenantID (user req)) (connectionID asset),
             RetrieveConsumptions asset True,
             ResJson (JsonObject (REST_RESPONSE_SUCCESS env)), Next], None)
         \<and> saveAsset_calls (fst (handleRetrieveConsumption env action req)) = []"
  using assms
  by (auto simp: retrieve_samples_def retrieve_loads_def handleRetrieveConsumption_def
      assertObjectExists_def Let_def isEmptyArray_def first_element_def split: option.splits)

theorem retrieve_null_first_witness:
  "retrieve_samples
     (example_env True (Some (example_asset ''A1'' True))
        (Some (example_connector None (Inr [None, Some example_sample]))) (None, None))
     RETRIEVE_ASSET_CONSUMPTION (example_request [(''ID'', ''A1'')])
     (example_asset ''A1'' True) [None, Some example_sample]
   \<and> handleRetrieveConsumption
       (example_env True (Some (example_asset ''A1'' True))
          (Some (example_connector None (Inr [None, Some example_sample]))) (None, None))
       RETRIEVE_ASSET_CONSUMPTION (example_request [(''ID'', ''A1'')]) =
       ([GetAsset ''t1'' ''A1'' None, GetAssetImpl ''t1'' ''meter-7'',
         RetrieveConsumptions (example_asset ''A1'' True) True,
         ResJson (JsonObject [(''status'', JString ''Success'')]), Next], None)"
proof -
  have s: "retrieve_samples
     (example_env True (Some (example_asset ''A1'' True))
        (Some (example_connector None (Inr [None, Some example_sample]))) (None, None))
     RETRIEVE_ASSET_CONSUMPTION (example_request [(''ID'', ''A1'')])
     (example_asset ''A1'' True) [None, Some example_sample]"
    by (simp add: retrieve_samples_def retrieve_loads_def example_defs)
  show ?thesis
    using s retrieve_null_first [OF s]
    by (simp add: example_defs)
qed

subsection \<open>Connection check\<close>

text \<open>
  C4. The claim is that for every connector handle whose probe throws, the failure never
  escapes the handler: it is logged and answered with \<^verbatim>\<open>{connectionIsValid: false}\<close>. The
  \<^verbatim>\<open>try\<close>/\<^verbatim>\<open>catch\<close> around the probe is written to do so, but misses one case. For every
  handle that the check gets to probe and whose probe rejects with \<^verbatim>\<open>null\<close> or
  \<^verbatim>\<open>undefined\<close>, the \<^verbatim>\<open>catch\<close> block itself throws a \<^verbatim>\<open>TypeError\<close> on reading
  \<^verbatim>\<open>error.message\<close>: the exception escapes, and the run ends after the probe with nothing
  logged, no response and no call of \<^verbatim>\<open>next\<close>.
\<close>

theorem check_connection_nullish_escapes:
  assumes "check_probes env req assetImpl" and "checkConnection assetImpl = Some Nullish"
  shows "handleCheckAssetConnection env action req =
           ([GetAssetImpl (tenantID (user req)) (filterAssetRequestByID env (query req)),
             CheckConnection],
            Some TypeError)"
  using assms
  by (simp add: check_probes_def check_active_def handleCheckAssetConnection_def Let_def)

theorem check_connection_nullish_escapes_witness:
  "check_probes
     (example_env True None (Some (example_connector (Some Nullish) (Inr []))) (None, None))
     (example_request [(''ID'', ''meter-7'')]) (example_connector (Some Nullish) (Inr []))
   \<and> checkConnection (example_connector (Some Nullish) (Inr [])) = Some Nullish
   \<and> handleCheckAssetConnection
       (example_env True None (Some (example_connector (Some Nullish) (Inr []))) (None, None))
       (ServerAction ''CheckAssetConnection'') (example_request [(''ID'', ''meter-7'')]) =
       ([GetAssetImpl ''t1'' ''meter-7'', CheckConnection], Some TypeError)"
proof -
  have p: "check_probes
     (example_env True None (Some (example_connector (Some Nullish) (Inr []))) (None, None))
     (example_request [(''ID'', ''meter-7'')]) (example_connector (Some Nullish) (Inr []))"
    by (simp add: check_probes_def check_active_def example_defs)
  have n: "checkConnection (example_connector (Some Nullish) (Inr [])) = Some Nullish"
    by (simp add: example_connector_def)
  show ?thesis
    using p n
      check_connection_nullish_escapes [OF p n, of "ServerAction ''CheckAssetConnection''"]
    by (simp add: example_defs)
qed

text \<open>
  For every other outcome of the probe the handler throws nothing. When the probe throws
  a value other than \<^verbatim>\<open>null\<close> and \<^verbatim>\<open>undefined\<close>, the handler logs the error ("Asset
  connection failed", with the value's message and stack) and answers with
  \<^verbatim>\<open>{connectionIsValid: false}\<close> combined with the success response constant; when the
  probe returns, it answers with \<^verbatim>\<open>{connectionIsValid: true}\<close> combined with the same
  constant.
\<close>

theorem check_connection_probe:
  assumes "check_probes env req assetImpl"
  shows "(checkConnection assetImpl \<noteq> Some Nullish \<longrightarrow>
            snd (handleCheckAssetConnection env action req) = None)
    \<and> (\<forall>error_message error_stack.
          checkConnection assetImpl = Some (Error error_message error_stack) \<longrightarrow>
          fst (handleCheckAssetConnection env action req) =
            [GetAssetImpl (tenantID (user req)) (filterAssetRequestByID env (query req)),
             CheckConnection,
             LogError (tenantID (user req)) (user req) MODULE_NAME
               ''handleCheckAssetConnection'' ''Asset connection failed'' action
               error_message error_stack,
             ResJson (JsonObject (Object_assign [(''connectionIsValid'', JBoolean False)]
                                    (REST_RESPONSE_SUCCESS env))),
             Next])
    \<and> (checkConnection assetImpl = None \<longrightarrow>
          fst (handleCheckAssetConnection env action req) =
            [GetAssetImpl (tenantID (user req)) (filterAssetRequestByID env (query req)),
             CheckConnection,
             ResJson (JsonObject (Object_assign [(''connectionIsValid'', JBoolean True)]
                                    (REST_RESPONSE_SUCCESS env))),
             Next])"
  using assms
  by (auto simp: check_probes_def check_active_def handleCheckAssetConnection_def Let_def
      split: option.splits js_error.splits)

theorem check_connection_probe_witness:
  "check_probes
     (example_env True None
        (Some (example_connector
                 (Some (Error (Some ''connect ETIMEDOUT'') (Some ''at connect''))) (Inr [])))
        (None, None))
     (example_request [(''ID'', ''meter-7'')])
     (example_connector (Some (Error (Some ''connect ETIMEDOUT'') (Some ''at connect'')))
        (Inr []))
   \<and> handleCheckAssetConnection
       (example_env True None
          (Some (example_connector
                   (Some (Error (Some ''connect ETIMEDOUT'') (Some ''at connect''))) (Inr [])))
          (None, None))
       (ServerAction ''CheckAssetConnection'') (example_request [(''ID'', ''meter-7'')]) =
       ([GetAssetImpl ''t1'' ''meter-7'', CheckConnection,
         LogError ''t1'' example_user ''AssetService'' ''handleCheckAssetConnection''
           ''Asset connection failed'' (ServerAction ''CheckAssetConnection'')
           (Some ''connect ETIMEDOUT'') (Some ''at connect''),
         ResJson (JsonObject [(''connectionIsValid'', JBoolean False),
                              (''status'', JString ''Success'')]),
         Next], None)
   \<and> check_probes
       (example_env True None (Some (example_connector None (Inr []))) (None, None))
       (example_request [(''ID'', ''meter-7'')]) (example_connector None (Inr []))
   \<and> handleCheckAssetConnection
       (example_env True None (Some (example_connector None (Inr []))) (None, None))
       (ServerAction ''CheckAssetConnection'') (example_request [(''ID'', ''meter-7'')]) =
       ([GetAssetImpl ''t1'' ''meter-7'', CheckConnection,
         ResJson (JsonObject [(''connectionIsValid'', JBoolean True),
                              (''status'', JString ''Success'')]),
         Next], None)"
proof -
  have p: "check_probes
     (example_env True None
        (Some (example_connector
                 (Some (Error (Some ''connect ETIMEDOUT'') (Some ''at connect''))) (Inr [])))
        (None, None))
     (example_request [(''ID'', ''meter-7'')])
     (example_connector (Some (Error (Some ''connect ETIMEDOUT'') (Some ''at connect'')))
        (Inr []))"
    by (simp add: check_probes_def check_active_def example_defs)
  have q: "check_probes
       (example_env True None (Some (example_connector None (Inr []))) (None, None))
       (example_request [(''ID'', ''meter-7'')]) (example_connector None (Inr []))"
    by (simp add: check_probes_def check_active_def example_defs)
  show ?thesis
    using p q
      check_connection_probe [OF p, of "ServerAction ''CheckAssetConnection''"]
      check_connection_probe [OF q, of "ServerAction ''CheckAssetConnection''"]
    by (simp add: example_defs MODULE_NAME_def prod_eq_iff)
qed

text \<open>
  C5. When the connector registry resolves no handle, the connection check and the live
  retrieval both fail with the error "Asset service is not configured" (an \<^verbatim>\<open>AppError\<close>),
  right after the call of the registry.
\<close>

theorem not_configured:
  "(check_active env req \<and>
    getAssetImpl env (tenantID (user req)) (filterAssetRequestByID env (query req)) = None \<longrightarrow>
      handleCheckAssetConnection env action req =
        ([GetAssetImpl (tenantID (user req)) (filterAssetRequestByID env (query req))],
         Some (AppError (CENTRAL_SERVER env) GENERAL_ERROR ''Asset service is not configured''
                 MODULE_NAME ''handleCheckAssetConnection''
                 (Some action) (Some (user req)) None)))
   \<and> (retrieve_loads env action req asset \<and> dynamicAsset asset \<and>
      getAssetImpl env (tenantID (user req)) (connectionID asset) = None \<longrightarrow>
      handleRetrieveConsumption env action req =
        ([GetAsset (tenantID (user req)) (filterAssetRequestByID env (query req)) None,
          GetAssetImpl (tenantID (user req)) (connectionID asset)],
         Some (AppError (CENTRAL_SERVER env) GENERAL_ERROR ''Asset service is not configured''
                 MODULE_NAME ''handleRetrieveConsumption''
                 (Some RETRIEVE_ASSET_CONSUMPTION) None None)))"
  by (simp add: check_active_def handleCheckAssetConnection_def retrieve_loads_def
      handleRetrieveConsumption_def assertObjectExists_def Let_def)

theorem not_configured_witness:
  "getAssetImpl (example_env True (Some (example_asset ''A1'' True)) None (None, None))
     ''t1'' ''meter-7'' = None
   \<and> handleCheckAssetConnection
       (example_env True (Some (example_asset ''A1'' True)) None (None, None))
       (ServerAction ''CheckAssetConnection'') (example_request [(''ID'', ''meter-7'')]) =
       ([GetAssetImpl ''t1'' ''meter-7''],
        Some (AppError ''Central Server'' GENERAL_ERROR ''Asset service is not configured''
                ''AssetService'' ''handleCheckAssetConnection''
                (Some (ServerAction ''CheckAssetConnection'')) (Some example_user) None))
   \<and> handleRetrieveConsumption
       (example_env True (Some (example_asset ''A1'' True)) None (None, None))
       RETRIEVE_ASSET_CONSUMPTION (example_request [(''ID'', ''A1'')]) =
       ([GetAsset ''t1'' ''A1'' None, GetAssetImpl ''t1'' ''meter-7''],
        Some (AppError ''Central Server'' GENERAL_ERROR ''Asset service is not configured''
                ''AssetService'' ''handleRetrieveConsumption''
                (Some RETRIEVE_ASSET_CONSUMPTION) None None))"
  using not_configured
    [of "example_env True (Some (example_asset ''A1'' True)) None (None, None)"
        "example_request [(''ID'', ''meter-7'')]" "ServerAction ''CheckAssetConnection''"
        "example_asset ''A1'' True"]
    not_configured
    [of "example_env True (Some (example_asset ''A1'' True)) None (None, None)"
        "example_request [(''ID'', ''A1'')]" RETRIEVE_ASSET_CONSUMPTION
        "example_asset ''A1'' True"]
  by (simp add: check_active_def retrieve_loads_def example_defs MODULE_NAME_def)

text \<open>
  C10. The connection check resolves the connector, and fails if there is none, before
  it asks whether the caller may check connections. A caller who may not is told
  "Asset service is not configured" when no connector resolves and is refused
  (\<^verbatim>\<open>FORBIDDEN\<close>) when one does, so the answer shows whether a connector is configured.
\<close>

theorem check_resolves_before_authorization:
  assumes "check_active env req" and "\<not> canCheckAssetConnection env (user req)"
  shows "handleCheckAssetConnection env action req =
     ([GetAssetImpl (tenantID (user req)) (filterAssetRequestByID env (query req))],
      Some (case getAssetImpl env (tenantID (user req))
                   (filterAssetRequestByID env (query req)) of
              None \<Rightarrow>
                AppError (CENTRAL_SERVER env) GENERAL_ERROR ''Asset service is not configured''
                  MODULE_NAME ''handleCheckAssetConnection''
                  (Some action) (Some (user req)) None
            | Some assetImpl \<Rightarrow>
                AppAuthError FORBIDDEN (user req) CHECK_CONNECTION ASSET
                  MODULE_NAME ''handleCheckAssetConnection'' None))"
  using assms
  by (simp add: check_active_def handleCheckAssetConnection_def Let_def split: option.splits)

theorem check_resolves_before_authorization_witness:
  "\<not> canCheckAssetConnection (example_env False None None (None, None)) example_user
   \<and> handleCheckAssetConnection (example_env False None None (None, None))
       (ServerAction ''CheckAssetConnection'') (example_request [(''ID'', ''meter-7'')]) =
       ([GetAssetImpl ''t1'' ''meter-7''],
        Some (AppError ''Central Server'' GENERAL_ERROR ''Asset service is not configured''
                ''AssetService'' ''handleCheckAssetConnection''
                (Some (ServerAction ''CheckAssetConnection'')) (Some example_user) None))
   \<and> handleCheckAssetConnection
       (example_env False None (Some (example_connector None (Inr []))) (None, None))
       (ServerAction ''CheckAssetConnection'') (example_request [(''ID'', ''meter-7'')]) =
       ([GetAssetImpl ''t1'' ''meter-7''],
        Some (AppAuthError FORBIDDEN example_user CHECK_CONNECTION ASSET
                ''AssetService'' ''handleCheckAssetConnection'' None))"
proof -
  have a: "check_active (example_env False None c (None, None))
             (example_request [(''ID'', ''meter-7'')])" for c
    by (simp add: check_active_def example_defs)
  have n: "\<not> canCheckAssetConnection (example_env False None c (None, None))
             (user (example_request [(''ID'', ''meter-7'')]))" for c
    by (simp add: example_defs)
  show ?thesis
    using check_resolves_before_authorization
        [OF a n, of None "ServerAction ''CheckAssetConnection''"]
      check_resolves_before_authorization
        [OF a n, of "Some (example_connector None (Inr []))"
           "ServerAction ''CheckAssetConnection''"]
    by (simp add: example_defs MODULE_NAME_def)
qed

subsection \<open>Consumption query\<close>

text \<open>
  C7. The consumption query validates in this order. The asset is loaded first: an absent
  asset fails the query with the not-found failure, whatever the dates. Then both dates
  must be present: otherwise the query fails with "Start date and end date must be
  provided". Then the start date must not be after the end date: otherwise the query
  fails with a message that quotes both dates in ISO format and says the start date is
  after the end date. Only then is the consumption store queried, once, and the asset
  returned with the store's answer as its values. So for every pair of dates with the
  start after the end, in every run, \<^verbatim>\<open>getAssetConsumptions\<close> is never called.
\<close>

theorem consumption_validation_order:
  "(consumption_admitted env action req \<longrightarrow>
     (let filteredRequest = filterAssetConsumptionRequest env (query req);
          run = handleGetAssetConsumption env action req;
          loaded = getAsset env (tenantID (user req)) (AssetID filteredRequest)
                     (Some [''id'', ''name'']);
          t1 = [GetAsset (tenantID (user req)) (AssetID filteredRequest)
                  (Some [''id'', ''name''])];
          fields = [''startedAt'', ''instantWatts'', ''instantAmps'', ''limitWatts'',
                    ''limitAmps'', ''endedAt'', ''stateOfCharge'']
      in (loaded = None \<longrightarrow>
            run = (t1, Some (NotFound
                     (''Asset ID '' @ quoted (AssetID filteredRequest) @ '' does not exist'')
                     MODULE_NAME ''handleGetAssetConsumption'')))
       \<and> (loaded \<noteq> None \<and>
            (StartDate filteredRequest = None \<or> EndDate filteredRequest = None) \<longrightarrow>
            run = (t1, Some (AppError (CENTRAL_SERVER env) GENERAL_ERROR
                     ''Start date and end date must be provided''
                     MODULE_NAME ''handleGetAssetConsumption''
                     (Some action) (Some (user req)) None)))
       \<and> (\<forall>startDate endDate.
            loaded \<noteq> None \<and> StartDate filteredRequest = Some startDate \<and>
            EndDate filteredRequest = Some endDate \<and> isAfter startDate endDate \<longrightarrow>
            run = (t1, Some (AppError (CENTRAL_SERVER env) GENERAL_ERROR
                     (''The requested start date '' @ quoted (toISOString startDate)
                        @ '' is after the end date '' @ quoted (toISOString endDate) @ '' '')
                     MODULE_NAME ''handleGetAssetConsumption''
                     (Some action) (Some (user req)) None)))
       \<and> (\<forall>asset startDate endDate.
            loaded = Some asset \<and> StartDate filteredRequest = Some startDate \<and>
            EndDate filteredRequest = Some endDate \<and> \<not> isAfter startDate endDate \<longrightarrow>
            run = (t1 @ [GetAssetConsumptions (tenantID (user req)) (AssetID filteredRequest)
                           startDate endDate fields,
                         ResJson (JsonAsset (asset \<lparr> values_asset :=
                           getAssetConsumptions env (tenantID (user req))
                             (AssetID filteredRequest) startDate endDate fields \<rparr>)),
                         Next], None))))
   \<and> (\<forall>startDate endDate.
        StartDate (filterAssetConsumptionRequest env (query req)) = Some startDate \<and>
        EndDate (filterAssetConsumptionRequest env (query req)) = Some endDate \<and>
        isAfter startDate endDate \<longrightarrow>
        getAssetConsumptions_calls (fst (handleGetAssetConsumption env action req)) = [])"
  by (auto simp: consumption_admitted_def handleGetAssetConsumption_def assertObjectExists_def
      Let_def split: option.splits sum.splits)

lemma toISOString_2023_05_01: "toISOString (Date 1682899200000) = ''2023-05-01T00:00:00.000Z''"
  by code_simp

lemma toISOString_2023_04_01: "toISOString (Date 1680307200000) = ''2023-04-01T00:00:00.000Z''"
  by code_simp

theorem consumption_validation_order_witness:
  "consumption_admitted
     (example_env True (Some (example_asset ''A2'' True)) None
        (Some (Date 1682899200000), Some (Date 1680307200000)))
     (ServerAction ''AssetConsumption'') (example_request [(''AssetID'', ''A2'')])
   \<and> isAfter (Date 1682899200000) (Date 1680307200000)
   \<and> handleGetAssetConsumption
       (example_env True (Some (example_asset ''A2'' True)) None
          (Some (Date 1682899200000), Some (Date 1680307200000)))
       (ServerAction ''AssetConsumption'') (example_request [(''AssetID'', ''A2'')]) =
       ([GetAsset ''t1'' ''A2'' (Some [''id'', ''name''])],
        Some (AppError ''Central Server'' GENERAL_ERROR
                (''The requested start date '2023-05-01T00:00:00.000Z' is after ''
                   @ ''the end date '2023-04-01T00:00:00.000Z' '')
                ''AssetService'' ''handleGetAssetConsumption''
                (Some (ServerAction ''AssetConsumption'')) (Some example_user) None))
   \<and> getAssetConsumptions_calls (fst (handleGetAssetConsumption
         (example_env True (Some (example_asset ''A2'' True)) None
            (Some (Date 1682899200000), Some (Date 1680307200000)))
         (ServerAction ''AssetConsumption'') (example_request [(''AssetID'', ''A2'')]))) = []"
  using consumption_validation_order
    [of "example_env True (Some (example_asset ''A2'' True)) None
           (Some (Date 1682899200000), Some (Date 1680307200000))"
        "ServerAction ''AssetConsumption''" "example_request [(''AssetID'', ''A2'')]"]
  by (simp add: consumption_admitted_def example_defs MODULE_NAME_def quoted_def Let_def
      toISOString_2023_05_01 toISOString_2023_04_01 del: toISOString.simps)

subsection \<open>Error listing\<close>

text \<open>
  C8, as the claim has it, fails for a string that is present and empty: the handler
  takes the empty \<^verbatim>\<open>ErrorType\<close> for an absent one and passes the default category, not
  the split of the string, and passes \<^verbatim>\<open>null\<close> for the empty \<^verbatim>\<open>SiteAreaID\<close>.
\<close>

theorem in_error_empty_strings_not_split:
  "ErrorType (filterAssetsRequest (example_env True None None (None, None))
      (query (example_request [(''ErrorType'', ''''), (''SiteAreaID'', '''')]))) = Some ''''
   \<and> SiteAreaID (filterAssetsRequest (example_env True None None (None, None))
      (query (example_request [(''ErrorType'', ''''), (''SiteAreaID'', '''')]))) = Some ''''
   \<and> getAssetsInError_filters (fst (handleGetAssetsInError
        (example_env True None None (None, None)) (ServerAction ''AssetsInError'')
        (example_request [(''ErrorType'', ''''), (''SiteAreaID'', '''')]))) =
      [\<lparr> search = None, siteAreaIDs = None, siteIDs = None,
         errorType = [''missing site area''] \<rparr>]
   \<and> [''missing site area''] \<noteq> split CHR ''|'' ''''
   \<and> None \<noteq> Some (split CHR ''|'' '''')"
  by (simp add: handleGetAssetsInError_def split_or_def Let_def MISSING_SITE_AREA_def
      example_defs)

text \<open>
  C8, amended. For every error listing that gets to the store, the store is called once,
  with the parameters of the request passed on and with this filter: the error types are
  the single category "missing site area" when \<^verbatim>\<open>ErrorType\<close> is absent or empty, and the
  pieces of \<^verbatim>\<open>ErrorType\<close> between its bars otherwise; the site areas and the sites are
  \<^verbatim>\<open>null\<close> when \<^verbatim>\<open>SiteAreaID\<close> or \<^verbatim>\<open>SiteID\<close> is absent or empty, and the pieces between the
  bars otherwise. So \<^verbatim>\<open>SiteAreaID="s1|s2"\<close> with no \<^verbatim>\<open>ErrorType\<close> gives the site areas
  \<^verbatim>\<open>["s1","s2"]\<close> and the error types \<^verbatim>\<open>["missing site area"]\<close>.
\<close>

theorem in_error_filter:
  assumes "in_error_admitted env req"
  shows "\<exists>f.
      handleGetAssetsInError env action req =
        ([GetAssetsInError (tenantID (user req)) f
            \<lparr> limit = Limit (filterAssetsRequest env (query req)),
              skip = Skip (filterAssetsRequest env (query req)),
              sortFields = SortFields (filterAssetsRequest env (query req)),
              onlyRecordCount = OnlyRecordCount (filterAssetsRequest env (query req)) \<rparr>
            [''id'', ''name'', ''errorCodeDetails'', ''errorCode''],
          ResJson (JsonValue (getAssetsInError env (tenantID (user req)) f
            \<lparr> limit = Limit (filterAssetsRequest env (query req)),
              skip = Skip (filterAssetsRequest env (query req)),
              sortFields = SortFields (filterAssetsRequest env (query req)),
              onlyRecordCount = OnlyRecordCount (filterAssetsRequest env (query req)) \<rparr>
            [''id'', ''name'', ''errorCodeDetails'', ''errorCode''])),
          Next], None)
    \<and> search f = Search (filterAssetsRequest env (query req))
    \<and> (ErrorType (filterAssetsRequest env (query req)) = None \<or>
        ErrorType (filterAssetsRequest env (query req)) = Some [] \<longrightarrow>
          errorType f = [MISSING_SITE_AREA])
    \<and> (\<forall>s. ErrorType (filterAssetsRequest env (query req)) = Some s \<and> s \<noteq> [] \<longrightarrow>
          errorType f = split CHR ''|'' s)
    \<and> (SiteAreaID (filterAssetsRequest env (query req)) = None \<or>
        SiteAreaID (filterAssetsRequest env (query req)) = Some [] \<longrightarrow>
          siteAreaIDs f = None)
    \<and> (\<forall>s. SiteAreaID (filterAssetsRequest env (query req)) = Some s \<and> s \<noteq> [] \<longrightarrow>
          siteAreaIDs f = Some (split CHR ''|'' s))
    \<and> (SiteID (filterAssetsRequest env (query req)) = None \<or>
        SiteID (filterAssetsRequest env (query req)) = Some [] \<longrightarrow>
          siteIDs f = None)
    \<and> (\<forall>s. SiteID (filterAssetsRequest env (query req)) = Some s \<and> s \<noteq> [] \<longrightarrow>
          siteIDs f = Some (split CHR ''|'' s))"
  using assms
  by (auto simp: in_error_admitted_def handleGetAssetsInError_def split_or_def Let_def)

theorem in_error_filter_witness:
  "in_error_admitted (example_env True None None (None, None))
     (example_request [(''SiteAreaID'', ''s1|s2'')])
   \<and> (\<exists>f. getAssetsInError_filters (fst (handleGetAssetsInError
              (example_env True None None (None, None)) (ServerAction ''AssetsInError'')
              (example_request [(''SiteAreaID'', ''s1|s2'')]))) = [f]
          \<and> siteAreaIDs f = Some [''s1'', ''s2'']
          \<and> errorType f = [''missing site area''])"
proof -
  have a: "in_error_admitted (example_env True None None (None, None))
     (example_request [(''SiteAreaID'', ''s1|s2'')])"
    by (simp add: in_error_admitted_def example_defs)
  have e: "ErrorType (filterAssetsRequest (example_env True None None (None, None))
      (query (example_request [(''SiteAreaID'', ''s1|s2'')]))) = None"
    by (simp add: example_defs)
  have s: "SiteAreaID (filterAssetsRequest (example_env True None None (None, None))
      (query (example_request [(''SiteAreaID'', ''s1|s2'')]))) = Some ''s1|s2''"
    by (simp add: example_defs)
  have p: "split CHR ''|'' ''s1|s2'' = [''s1'', ''s2'']"
    by simp
  from in_error_filter [OF a, of "ServerAction ''AssetsInError''"] e s p a
  show ?thesis
    by (auto simp: MISSING_SITE_AREA_def)
qed

end
